theory Spec2Isabelle
  imports Complex_Main "HOL-Library.Word"
begin

unbundle bit_operations_syntax

section \<open>Library functions the handlers call\<close>

subsection \<open>strconv: ParseUint, ParseInt, ParseBool\<close>

text \<open>
  Go strings are byte sequences, modelled as \<open>string\<close>. \<open>uint64\<close> and \<open>int64\<close> are
  both \<open>64 word\<close>; \<open>sint\<close> reads the signed value. The strconv functions return a
  value and an error; the model returns the pair, with \<open>None\<close> for a nil error.
\<close>

datatype num_error = ErrSyntax | ErrRange | ErrBase | ErrBitSize

type_synonym uint64 = "64 word"
type_synonym int64 = "64 word"

definition byte :: "char \<Rightarrow> nat" where
  "byte c = of_char c"

definition lower :: "char \<Rightarrow> char" where
  \<comment> \<open>\<open>c | ('x' - 'X')\<close>\<close>
  "lower c = char_of (byte c OR 32)"

definition is_digit :: "char \<Rightarrow> bool" where
  "is_digit c = (48 \<le> byte c \<and> byte c \<le> 57)"

definition digit_of :: "char \<Rightarrow> nat option" where
  \<comment> \<open>the digit value of a byte in ParseUint's loop, \<open>None\<close> for its default case\<close>
  "digit_of c =
     (if is_digit c then Some (byte c - 48)
      else if 97 \<le> byte (lower c) \<and> byte (lower c) \<le> 122 then Some (byte (lower c) - 97 + 10)
      else None)"

fun uint_loop :: "nat \<Rightarrow> bool \<Rightarrow> uint64 \<Rightarrow> uint64 \<Rightarrow> string \<Rightarrow> uint64 \<Rightarrow> bool
    \<Rightarrow> uint64 \<times> num_error option \<times> bool" where
  "uint_loop base base0 cutoff maxVal [] n us = (n, None, us)"
| "uint_loop base base0 cutoff maxVal (c # cs) n us =
     (if c = CHR ''_'' \<and> base0 then uint_loop base base0 cutoff maxVal cs n True
      else case digit_of c of
        None \<Rightarrow> (0, Some ErrSyntax, us)
      | Some d \<Rightarrow>
          if d \<ge> base then (0, Some ErrSyntax, us)
          else if n \<ge> cutoff then (maxVal, Some ErrRange, us)
          else let n' = n * of_nat base; n1 = n' + of_nat d
               in if n1 < n' \<or> n1 > maxVal then (maxVal, Some ErrRange, us)
                  else uint_loop base base0 cutoff maxVal cs n1 us)"

datatype saw = SawStart | SawDigit | SawUnderscore | SawOther

fun underscore_loop :: "bool \<Rightarrow> saw \<Rightarrow> string \<Rightarrow> bool" where
  "underscore_loop hex sw [] = (sw \<noteq> SawUnderscore)"
| "underscore_loop hex sw (c # cs) =
     (if is_digit c \<or> (hex \<and> 97 \<le> byte (lower c) \<and> byte (lower c) \<le> 102)
      then underscore_loop hex SawDigit cs
      else if c = CHR ''_''
      then (if sw \<noteq> SawDigit then False else underscore_loop hex SawUnderscore cs)
      else if sw = SawUnderscore then False
      else underscore_loop hex SawOther cs)"

definition is_base_letter :: "char \<Rightarrow> bool" where
  "is_base_letter c = (lower c = CHR ''b'' \<or> lower c = CHR ''o'' \<or> lower c = CHR ''x'')"

definition underscoreOK :: "string \<Rightarrow> bool" where
  "underscoreOK s =
     (let s1 = (case s of c # cs \<Rightarrow> if c = CHR ''-'' \<or> c = CHR ''+'' then cs else s | [] \<Rightarrow> s)
      in case s1 of
           a # b # rest \<Rightarrow>
             if a = CHR ''0'' \<and> is_base_letter b
             then underscore_loop (lower b = CHR ''x'') SawDigit rest
             else underscore_loop False SawStart s1
         | _ \<Rightarrow> underscore_loop False SawStart s1)"

definition base_prefix :: "string \<Rightarrow> nat \<times> string" where
  \<comment> \<open>the \<open>base == 0\<close> case of ParseUint: the base and the digits after the prefix\<close>
  "base_prefix s =
     (case s of
        [] \<Rightarrow> (10, s)
      | c # cs \<Rightarrow>
          if c = CHR ''0'' then
            (if length s \<ge> 3 \<and> lower (hd cs) = CHR ''b'' then (2, tl cs)
             else if length s \<ge> 3 \<and> lower (hd cs) = CHR ''o'' then (8, tl cs)
             else if length s \<ge> 3 \<and> lower (hd cs) = CHR ''x'' then (16, tl cs)
             else (8, cs))
          else (10, s))"

definition ParseUint :: "string \<Rightarrow> int \<Rightarrow> int \<Rightarrow> uint64 \<times> num_error option" where
  "ParseUint s base bitSize =
     (if s = [] then (0, Some ErrSyntax)
      else if \<not> (2 \<le> base \<and> base \<le> 36) \<and> base \<noteq> 0 then (0, Some ErrBase)
      else
        let base0 = (base = 0);
            (b, digits) = (if base0 then base_prefix s else (nat base, s))
        in if bitSize < 0 \<or> bitSize > 64 then (0, Some ErrBitSize)
           else
             let bits = (if bitSize = 0 then 64 else nat bitSize);
                 cutoff = (- 1) div of_nat b + 1;
                 maxVal = push_bit bits 1 - 1
             in case uint_loop b base0 cutoff maxVal digits 0 False of
                  (n, Some e, us) \<Rightarrow> (n, Some e)
                | (n, None, us) \<Rightarrow>
                    if us \<and> \<not> underscoreOK s then (0, Some ErrSyntax) else (n, None))"

definition ParseInt :: "string \<Rightarrow> int \<Rightarrow> int \<Rightarrow> int64 \<times> num_error option" where
  "ParseInt s base bitSize =
     (case s of
        [] \<Rightarrow> (0, Some ErrSyntax)
      | c # cs \<Rightarrow>
          let neg = (c = CHR ''-'');
              s1 = (if c = CHR ''+'' \<or> c = CHR ''-'' then cs else s);
              (un, err) = ParseUint s1 base bitSize
          in if err \<noteq> None \<and> err \<noteq> Some ErrRange then (0, err)
             else
               let bits = (if bitSize = 0 then 64 else nat bitSize);
                   cutoff = (push_bit (bits - 1) 1 :: uint64)
               in if \<not> neg \<and> un \<ge> cutoff then (cutoff - 1, Some ErrRange)
                  else if neg \<and> un > cutoff then (- cutoff, Some ErrRange)
                  else (if neg then - un else un, None))"

definition ParseBool :: "string \<Rightarrow> bool \<times> num_error option" where
  "ParseBool str =
     (if str \<in> set [''1'', ''t'', ''T'', ''TRUE'', ''true'', ''True''] then (True, None)
      else if str \<in> set [''0'', ''f'', ''F'', ''FALSE'', ''false'', ''False''] then (False, None)
      else (False, Some ErrSyntax))"

subsection \<open>fmt: the \<open>%#x\<close> verb on a uint64\<close>

definition hex_digit :: "nat \<Rightarrow> char" where
  "hex_digit d = ''0123456789abcdef'' ! (d mod 16)"

fun hex_digits :: "nat \<Rightarrow> string" where
  "hex_digits n = (if n < 16 then [hex_digit n] else hex_digits (n div 16) @ [hex_digit n])"

declare hex_digits.simps [simp del]

definition fmt_sharp_x :: "uint64 \<Rightarrow> string" where
  "fmt_sharp_x pc = ''0x'' @ hex_digits (unat pc)"

subsection \<open>bufio: Reader.ReadSlice\<close>

text \<open>
  A reader is the bytes it will still deliver and the error its source reports once they
  are exhausted (a separate Read, as strings.Reader does): \<open>EOF\<close> for the query string,
  \<open>EOF\<close> or a transport error for a request body. \<open>bufio.NewReader\<close> gives the reader a
  buffer of \<open>defaultBufSize\<close> bytes. \<open>ReadSlice\<close> searches the buffer for the delimiter,
  then looks for a pending error, then for a full buffer, and fills the buffer otherwise.
\<close>

datatype read_error = EOF | ErrBufferFull | ReadFailed string

record reader =
  pending :: string
  fail :: read_error

definition defaultBufSize :: nat where
  "defaultBufSize = 4096"

definition ReadSlice :: "char \<Rightarrow> reader \<Rightarrow> (string \<times> read_error option) \<times> reader" where
  "ReadSlice delim rd =
     (let win = take defaultBufSize (pending rd);
          pre = takeWhile (\<lambda>c. c \<noteq> delim) win
      in if length pre < length win
         then ((pre @ [delim], None), rd\<lparr>pending := drop (Suc (length pre)) (pending rd)\<rparr>)
         else if length (pending rd) < defaultBufSize
         then ((pending rd, Some (fail rd)), rd\<lparr>pending := []\<rparr>)
         else ((win, Some ErrBufferFull), rd\<lparr>pending := drop defaultBufSize (pending rd)\<rparr>))"

fun error_text :: "read_error \<Rightarrow> string" where
  "error_text EOF = ''EOF''"
| "error_text ErrBufferFull = ''bufio: buffer full''"
| "error_text (ReadFailed m) = m"


subsection \<open>strings.Join\<close>

fun Join :: "string list \<Rightarrow> string \<Rightarrow> string" where
  "Join [] sep = []"
| "Join [a] sep = a"
| "Join (a # b # rest) sep = a @ sep @ Join (b # rest) sep"

subsection \<open>fmt: a format string without operands\<close>

text \<open>
  What \<open>doPrintf\<close> writes for a format string when the operand list is empty, for the
  directives made of flags and a one-byte verb: text outside directives is copied, \<open>%%\<close>
  is a percent sign, a verb finds no operand and prints \<open>%!verb(MISSING)\<close>, and a
  directive cut off by the end of the string prints \<open>%!(NOVERB)\<close>. The result is \<open>None\<close>
  for a directive with a width, a precision, an argument index or a multi-byte verb,
  which this model does not cover. The flag says whether the scan is inside a directive.
\<close>

definition is_flag :: "char \<Rightarrow> bool" where
  "is_flag c = (c \<in> set ''#0+- '')"

fun doPrintf :: "bool \<Rightarrow> string \<Rightarrow> string option" where
  "doPrintf False [] = Some []"
| "doPrintf False (c # cs) =
     (if c = CHR ''%'' then doPrintf True cs
      else map_option ((#) c) (doPrintf False cs))"
| "doPrintf True [] = Some ''%!(NOVERB)''"
| "doPrintf True (c # cs) =
     (if is_flag c then doPrintf True cs
      else if is_digit c \<or> c \<in> set ''[*.'' \<or> byte c \<ge> 128 then None
      else if c = CHR ''%'' then map_option ((#) c) (doPrintf False cs)
      else map_option ((@) (''%!'' @ [c] @ ''(MISSING)'')) (doPrintf False cs))"

section \<open>The HTTP response writer\<close>

text \<open>
  \<open>header\<close> is the header map the handler edits; \<open>status\<close> is \<open>None\<close> until the header
  is written, which happens at the first \<open>WriteHeader\<close> or, with status 200, at the first
  \<open>Write\<close>; a later \<open>WriteHeader\<close> changes nothing. \<open>sent_header\<close> is the header map as
  it was when the header was written. \<open>writes\<close> lists the payload of each \<open>Write\<close> call.
\<close>

record response =
  header :: "string \<rightharpoonup> string"
  status :: "nat option"
  sent_header :: "string \<rightharpoonup> string"
  writes :: "string list"

definition new_response :: response where
  "new_response = \<lparr>header = Map.empty, status = None, sent_header = Map.empty, writes = []\<rparr>"

definition Header_Set :: "string \<Rightarrow> string \<Rightarrow> response \<Rightarrow> response" where
  "Header_Set k v w = w\<lparr>header := (header w)(k \<mapsto> v)\<rparr>"

definition WriteHeader :: "nat \<Rightarrow> response \<Rightarrow> response" where
  "WriteHeader code w =
     (if status w \<noteq> None then w else w\<lparr>status := Some code, sent_header := header w\<rparr>)"

definition Write :: "string \<Rightarrow> response \<Rightarrow> response" where
  "Write b w = (let w' = WriteHeader 200 w in w'\<lparr>writes := writes w' @ [b]\<rparr>)"

definition body :: "response \<Rightarrow> string" where
  "body w = concat (writes w)"

definition StatusInternalServerError :: nat where
  "StatusInternalServerError = 500"

record request =
  Method :: string
  host :: string
  raw_query :: string
  form :: "string \<rightharpoonup> string"
  req_body :: reader

definition FormValue :: "request \<Rightarrow> string \<Rightarrow> string" where
  "FormValue r k = (case form r k of None \<Rightarrow> [] | Some v \<Rightarrow> v)"

section \<open>The handlers\<close>

subsection \<open>Cmdline\<close>

text \<open>
  \<open>fmt.Fprintf(w, strings.Join(os.Args, "\x00"))\<close>: the joined arguments are the format
  string, and there are no operands. The result is \<open>None\<close> where the format model is.
\<close>

definition Cmdline :: "string list \<Rightarrow> response \<Rightarrow> response option" where
  "Cmdline args w =
     (let w1 = Header_Set ''Content-Type'' ''text/plain; charset=utf-8'' w
      in map_option (\<lambda>out. Write out w1) (doPrintf False (Join args [CHR 0x00])))"

subsection \<open>Symbol\<close>

text \<open>
  \<open>FuncForPC\<close> is the runtime's symbol table: the name of the function owning a program
  counter, \<open>None\<close> where \<open>runtime.FuncForPC\<close> returns nil (\<open>uintptr\<close> is 64 bits wide).
\<close>

definition symbol_line :: "(uint64 \<Rightarrow> string option) \<Rightarrow> string \<Rightarrow> string" where
  \<comment> \<open>what one word of the request adds to the buffer\<close>
  "symbol_line FuncForPC word =
     (let pc = fst (ParseUint word 0 64)
      in if pc \<noteq> 0
         then (case FuncForPC pc of
                 Some name \<Rightarrow> fmt_sharp_x pc @ '' '' @ name @ ''\<newline>''
               | None \<Rightarrow> [])
         else [])"

function symbol_loop :: "(uint64 \<Rightarrow> string option) \<Rightarrow> reader \<Rightarrow> string \<Rightarrow> string" where
  "symbol_loop FuncForPC b buf =
     (let res = ReadSlice (CHR ''+'') b;
          err = snd (fst res);
          word = (if err = None then butlast (fst (fst res)) else fst (fst res));
          buf1 = buf @ symbol_line FuncForPC word
      in if err = None then symbol_loop FuncForPC (snd res) buf1
         else if err \<noteq> Some EOF
         then buf1 @ ''reading request: '' @ error_text (the err) @ ''\<newline>''
         else buf1)"
  by pat_completeness auto
termination
  by (relation "measure (\<lambda>(f, b, buf). length (pending b))")
     (auto simp: ReadSlice_def Let_def split: if_splits)

declare symbol_loop.simps [simp del]

definition Symbol :: "(uint64 \<Rightarrow> string option) \<Rightarrow> request \<Rightarrow> response \<Rightarrow> response" where
  "Symbol FuncForPC r w =
     (let w1 = Header_Set ''Content-Type'' ''text/plain; charset=utf-8'' w;
          buf = ''num_symbols: 1\<newline>'';
          b = (if Method r = ''POST'' then req_body r
               else \<lparr>pending = raw_query r, fail = EOF\<rparr>)
      in Write (symbol_loop FuncForPC b buf) w1)"


subsection \<open>The sampler, the collaborators and the handler state\<close>

text \<open>
  The process-wide sampler of runtime/pprof and runtime/trace has one slot for each kind
  of capture: a start while the slot is taken returns an error and changes nothing, a
  stop frees the slot.
\<close>

record sampler_state =
  cpu_profiling :: bool
  tracing :: bool

definition StartCPUProfile :: "sampler_state \<Rightarrow> string option \<times> sampler_state" where
  "StartCPUProfile s =
     (if cpu_profiling s then (Some ''cpu profiling already in use'', s)
      else (None, s\<lparr>cpu_profiling := True\<rparr>))"

definition StopCPUProfile :: "sampler_state \<Rightarrow> sampler_state" where
  "StopCPUProfile s = s\<lparr>cpu_profiling := False\<rparr>"

definition trace_Start :: "sampler_state \<Rightarrow> string option \<times> sampler_state" where
  "trace_Start s =
     (if tracing s then (Some ''tracing is already enabled'', s)
      else (None, s\<lparr>tracing := True\<rparr>))"

definition trace_Stop :: "sampler_state \<Rightarrow> sampler_state" where
  "trace_Stop s = s\<lparr>tracing := False\<rparr>"

text \<open>
  The calls a handler makes to the sampler, to \<open>sleep\<close> and to the profile packages are
  recorded in order. \<open>sleep\<close> waits for the timer or for the close notification,
  whichever comes first: \<open>clientGone\<close> is \<open>None\<close> when the response writer is no
  CloseNotifier (the channel stays nil), and \<open>Some b\<close> otherwise, \<open>b\<close> saying whether the
  notification arrives before the timer fires.
\<close>

datatype wake = TimerFired | ClientGone

datatype event =
    CallStartCPUProfile | CallStopCPUProfile
  | CallTraceStart | CallTraceStop
  | CallSleep int64 wake
  | CallParse | CallSymbolize string | CallGenerate

definition sleep :: "bool option \<Rightarrow> int64 \<Rightarrow> wake" where
  "sleep clientGone d = (case clientGone of Some True \<Rightarrow> ClientGone | _ \<Rightarrow> TimerFired)"

record hstate =
  resp :: response
  sampler :: sampler_state
  events :: "event list"

definition emit :: "event \<Rightarrow> hstate \<Rightarrow> hstate" where
  "emit e st = st\<lparr>events := events st @ [e]\<rparr>"

definition on_resp :: "(response \<Rightarrow> response) \<Rightarrow> hstate \<Rightarrow> hstate" where
  "on_resp f st = st\<lparr>resp := f (resp st)\<rparr>"

datatype report_format = Text

record report_options =
  OutputFormat :: report_format
  CumSort :: bool
  PrintAddresses :: bool

text \<open>
  The packages internal/profile, internal/symbolz and internal/report, and the bytes the
  sampler delivers for a capture, are parameters of the Profile handler: \<open>Parse\<close> returns
  an error text or a profile, \<open>Symbolize\<close> an optional error text and the profile as it
  left it, \<open>Generate\<close> the report text.
\<close>

record 'p profile_env =
  Parse :: "string \<Rightarrow> string + 'p"
  Symbolize :: "string \<Rightarrow> 'p \<Rightarrow> string option \<times> 'p"
  Generate :: "'p \<Rightarrow> report_options \<Rightarrow> string"
  cpu_data :: "int64 \<Rightarrow> wake \<Rightarrow> string"

subsection \<open>Profile\<close>

definition Second :: int64 where
  "Second = 1000000000"

definition profile_seconds :: "request \<Rightarrow> int64" where
  "profile_seconds r =
     (let sec = fst (ParseInt (FormValue r ''seconds'') 10 64)
      in if sec = 0 then 30 else sec)"

definition profile_text :: "'p profile_env \<Rightarrow> request \<Rightarrow> bool \<Rightarrow> string \<Rightarrow> hstate \<Rightarrow> hstate" where
  \<comment> \<open>the branch of Profile for a plain text profile\<close>
  "profile_text env r cum raw st =
     (case Parse env raw of
        Inl e \<Rightarrow>
          on_resp (\<lambda>w. Write (''Failed to parse profile: '' @ e @ ''\<newline>'')
                         (WriteHeader StatusInternalServerError w))
            (emit CallParse st)
      | Inr prof \<Rightarrow>
          let st1 = emit CallParse st;
              url = ''http://'' @ host r @ ''/symbol'';
              (serr, prof1) = Symbolize env url prof;
              st2 = emit (CallSymbolize url) st1;
              st3 = (case serr of
                       Some e \<Rightarrow>
                         on_resp (\<lambda>w. Write (''Failed to symbolize profile: '' @ e @ ''\<newline>'')
                                        (WriteHeader StatusInternalServerError w)) st2
                     | None \<Rightarrow> st2);
              rpt = Generate env prof1
                      \<lparr>OutputFormat = Text, CumSort = cum, PrintAddresses = True\<rparr>;
              st4 = emit CallGenerate st3
          in on_resp (Write rpt) st4)"

definition Profile :: "'p profile_env \<Rightarrow> request \<Rightarrow> bool option \<Rightarrow> hstate \<Rightarrow> hstate" where
  "Profile env r clientGone st =
     (let sec = profile_seconds r;
          binary = fst (ParseBool (FormValue r ''binary''));
          cum = fst (ParseBool (FormValue r ''cum''));
          st1 = on_resp (Header_Set ''Content-Type'' ''text/plain; charset=utf-8'') st;
          (err, smp) = StartCPUProfile (sampler st1);
          st2 = emit CallStartCPUProfile (st1\<lparr>sampler := smp\<rparr>)
      in case err of
           Some e \<Rightarrow>
             on_resp (\<lambda>w. Write (''Could not enable CPU profiling: '' @ e @ ''\<newline>'')
                            (WriteHeader StatusInternalServerError w)) st2
         | None \<Rightarrow>
             let d = sec * Second;
                 wk = sleep clientGone d;
                 st3 = emit (CallSleep d wk) st2;
                 st4 = emit CallStopCPUProfile (st3\<lparr>sampler := StopCPUProfile (sampler st3)\<rparr>);
                 raw = cpu_data env d wk
             in if binary
                then on_resp (\<lambda>w. Write raw (Header_Set ''Content-Type'' ''application/octet-stream'' w)) st4
                else profile_text env r cum raw st4)"

subsection \<open>Trace\<close>

text \<open>
  A float64 is a real number, an infinity or a NaN. \<open>strconv.ParseFloat\<close>, the conversion
  \<open>time.Duration(sec*float64(time.Second))\<close> and the chunks the tracer writes to the
  response are parameters of the handler.
\<close>

datatype float64 = Finite real | PosInf | NegInf | NaN

fun f64_le_zero :: "float64 \<Rightarrow> bool" where
  "f64_le_zero (Finite x) = (x \<le> 0)"
| "f64_le_zero NegInf = True"
| "f64_le_zero PosInf = False"
| "f64_le_zero NaN = False"

record trace_env =
  ParseFloat :: "string \<Rightarrow> float64 \<times> num_error option"
  Duration_of :: "float64 \<Rightarrow> int64"
  trace_data :: "int64 \<Rightarrow> wake \<Rightarrow> string list"

definition trace_seconds :: "trace_env \<Rightarrow> request \<Rightarrow> float64" where
  "trace_seconds env r =
     (let (sec, err) = ParseFloat env (FormValue r ''seconds'')
      in if f64_le_zero sec \<or> err \<noteq> None then Finite 1 else sec)"

definition Trace :: "trace_env \<Rightarrow> request \<Rightarrow> bool option \<Rightarrow> hstate \<Rightarrow> hstate" where
  "Trace env r clientGone st =
     (let sec = trace_seconds env r;
          st1 = on_resp (Header_Set ''Content-Type'' ''application/octet-stream'') st;
          (err, smp) = trace_Start (sampler st1);
          st2 = emit CallTraceStart (st1\<lparr>sampler := smp\<rparr>)
      in case err of
           Some e \<Rightarrow>
             on_resp (\<lambda>w. Write (''Could not enable tracing: '' @ e @ ''\<newline>'')
                            (WriteHeader StatusInternalServerError
                              (Header_Set ''Content-Type'' ''text/plain; charset=utf-8'' w))) st2
         | None \<Rightarrow>
             let d = Duration_of env sec;
                 wk = sleep clientGone d;
                 st3 = emit (CallSleep d wk) st2;
                 st4 = on_resp (\<lambda>w. foldl (\<lambda>w c. Write c w) w (trace_data env d wk)) st3
             in emit CallTraceStop (st4\<lparr>sampler := trace_Stop (sampler st4)\<rparr>))"



section \<open>Example inputs\<close>

definition get_request :: "string \<Rightarrow> (string \<rightharpoonup> string) \<Rightarrow> request" where
  "get_request q f =
     \<lparr>Method = ''GET'', host = ''localhost:6060'', raw_query = q, form = f,
      req_body = \<lparr>pending = [], fail = EOF\<rparr>\<rparr>"

definition post_request :: "string \<Rightarrow> read_error \<Rightarrow> request" where
  "post_request payload e =
     \<lparr>Method = ''POST'', host = ''localhost:6060'', raw_query = [], form = Map.empty,
      req_body = \<lparr>pending = payload, fail = e\<rparr>\<rparr>"

definition example_table :: "uint64 \<Rightarrow> string option" where
  "example_table pc = (if pc = 12345 then Some ''main.main'' else None)"

definition long_token :: string where
  "long_token = replicate 4096 (CHR ''z'')"

definition idle_state :: hstate where
  "idle_state =
     \<lparr>resp = new_response, sampler = \<lparr>cpu_profiling = False, tracing = False\<rparr>, events = []\<rparr>"

definition busy_state :: hstate where
  "busy_state =
     \<lparr>resp = new_response, sampler = \<lparr>cpu_profiling = True, tracing = True\<rparr>, events = []\<rparr>"


definition failing_symbolizer :: "unit profile_env" where
  "failing_symbolizer =
     \<lparr>Parse = (\<lambda>raw. Inr ()),
      Symbolize = (\<lambda>url p. (Some ''connection refused'', p)),
      Generate = (\<lambda>p opts. ''report''),
      cpu_data = (\<lambda>d wk. ''raw'')\<rparr>"

definition failing_parser :: "unit profile_env" where
  "failing_parser =
     \<lparr>Parse = (\<lambda>raw. Inl ''unexpected EOF''),
      Symbolize = (\<lambda>url p. (None, p)),
      Generate = (\<lambda>p opts. ''report''),
      cpu_data = (\<lambda>d wk. ''raw'')\<rparr>"

definition example_tracer :: trace_env where
  "example_tracer =
     \<lparr>ParseFloat = (\<lambda>s. (Finite 0, Some ErrSyntax)),
      Duration_of = (\<lambda>sec. if sec = Finite 1 then Second else 0),
      trace_data = (\<lambda>d wk. [''trace''])\<rparr>"

section \<open>Properties of the response writer\<close>

lemma writes_Write: "writes (Write b w) = writes w @ [b]"
  by (simp add: Write_def WriteHeader_def Let_def)

lemma writes_Header_Set: "writes (Header_Set k v w) = writes w"
  by (simp add: Header_Set_def)

section \<open>Properties of ParseUint\<close>

lemma uint_loop_syntax_zero:
  "uint_loop b b0 cutoff maxVal s n us = (v, Some ErrSyntax, u) \<Longrightarrow> v = 0"
  by (induction b b0 cutoff maxVal s n us rule: uint_loop.induct)
     (auto simp: Let_def split: if_splits option.splits)

lemma uint_loop_range_max:
  "uint_loop b b0 cutoff maxVal s n us = (v, Some ErrRange, u) \<Longrightarrow> v = maxVal"
  by (induction b b0 cutoff maxVal s n us rule: uint_loop.induct)
     (auto simp: Let_def split: if_splits option.splits)

lemma uint_loop_errors:
  "uint_loop b b0 cutoff maxVal s n us = (v, Some e, u) \<Longrightarrow> e = ErrSyntax \<or> e = ErrRange"
  by (induction b b0 cutoff maxVal s n us rule: uint_loop.induct)
     (auto simp: Let_def split: if_splits option.splits)

lemma ParseUint_0_64:
  "ParseUint s 0 64 =
     (if s = [] then (0, Some ErrSyntax)
      else case uint_loop (fst (base_prefix s)) True ((- 1) div of_nat (fst (base_prefix s)) + 1)
                  (push_bit 64 1 - 1) (snd (base_prefix s)) 0 False of
             (n, Some e, us) \<Rightarrow> (n, Some e)
           | (n, None, us) \<Rightarrow>
               if us \<and> \<not> underscoreOK s then (0, Some ErrSyntax) else (n, None))"
  by (simp add: ParseUint_def Let_def split_beta cong: option.case_cong if_cong)

lemma ParseUint_value:
  "(snd (ParseUint s 0 64) = Some ErrSyntax \<longrightarrow> fst (ParseUint s 0 64) = 0)
   \<and> (snd (ParseUint s 0 64) = Some ErrRange \<longrightarrow> fst (ParseUint s 0 64) = - 1)
   \<and> snd (ParseUint s 0 64) \<in> {None, Some ErrSyntax, Some ErrRange}"
proof -
  define r where "r = uint_loop (fst (base_prefix s)) True ((- 1) div of_nat (fst (base_prefix s)) + 1)
                  (push_bit 64 1 - 1) (snd (base_prefix s)) 0 False"
  obtain n e us where r: "r = (n, e, us)"
    by (cases r)
  have P: "ParseUint s 0 64 =
     (if s = [] then (0, Some ErrSyntax)
      else case e of
             Some x \<Rightarrow> (n, Some x)
           | None \<Rightarrow> if us \<and> \<not> underscoreOK s then (0, Some ErrSyntax) else (n, None))"
    unfolding ParseUint_0_64 r_def [symmetric] r by (simp split: option.splits)
  have loop: "uint_loop (fst (base_prefix s)) True ((- 1) div of_nat (fst (base_prefix s)) + 1)
                  (push_bit 64 1 - 1) (snd (base_prefix s)) 0 False = (n, e, us)"
    using r unfolding r_def .
  have z: "n = 0" if "e = Some ErrSyntax"
    using loop unfolding that by (rule uint_loop_syntax_zero)
  have "n = push_bit 64 1 - 1" if "e = Some ErrRange"
    using loop unfolding that by (rule uint_loop_range_max)
  then have m: "n = - 1" if "e = Some ErrRange"
    using that by simp
  have k: "x = ErrSyntax \<or> x = ErrRange" if "e = Some x" for x
    using loop unfolding that by (rule uint_loop_errors)
  show ?thesis
    unfolding P using z m k by (auto split: option.splits)
qed

section \<open>Evaluating the \<open>%#x\<close> verb\<close>

lemma fmt_sharp_x_12345: "fmt_sharp_x 12345 = ''0x3039''"
  by (simp add: fmt_sharp_x_def hex_digits.simps hex_digit_def)

section \<open>Properties of Symbol\<close>

lemma symbol_loop_extends: "\<exists>out. symbol_loop f b buf = buf @ out"
proof (induction f b buf rule: symbol_loop.induct)
  case (1 f b buf)
  show ?case
  proof (cases "snd (fst (ReadSlice (CHR ''+'') b)) = None")
    case True
    have step: "symbol_loop f b buf =
        symbol_loop f (snd (ReadSlice (CHR ''+'') b))
          (buf @ symbol_line f (butlast (fst (fst (ReadSlice (CHR ''+'') b)))))"
      using True by (subst symbol_loop.simps) (simp add: Let_def)
    from "1.IH" [OF refl refl refl refl] True
    obtain out where "symbol_loop f (snd (ReadSlice (CHR ''+'') b))
          (buf @ symbol_line f (butlast (fst (fst (ReadSlice (CHR ''+'') b)))))
       = (buf @ symbol_line f (butlast (fst (fst (ReadSlice (CHR ''+'') b))))) @ out"
      by auto
    with step show ?thesis by simp
  next
    case False
    then show ?thesis
      by (subst symbol_loop.simps) (auto simp add: Let_def)
  qed
qed

lemma takeWhile_no_delim: "d \<notin> set t \<Longrightarrow> takeWhile (\<lambda>c. c \<noteq> d) t = t"
  by (induction t) auto

lemma takeWhile_to_delim:
  "d \<notin> set t \<Longrightarrow> takeWhile (\<lambda>c. c \<noteq> d) (t @ d # rest) = t"
  by (induction t) auto

lemma ReadSlice_delim:
  assumes "d \<notin> set t" "length t < defaultBufSize"
  shows "ReadSlice d \<lparr>pending = t @ d # rest, fail = e\<rparr>
         = ((t @ [d], None), \<lparr>pending = rest, fail = e\<rparr>)"
proof -
  define rd where "rd = \<lparr>pending = t @ d # rest, fail = e\<rparr>"
  have p: "pending rd = t @ d # rest"
    by (simp add: rd_def)
  obtain k where k: "defaultBufSize - length t = Suc k"
    using assms by (cases "defaultBufSize - length t") auto
  have tk: "take defaultBufSize (t @ d # rest) = t @ d # take k rest"
    using assms k by simp
  have tw: "takeWhile (\<lambda>c. c \<noteq> d) (t @ d # take k rest) = t"
    using assms by (simp add: takeWhile_to_delim)
  have "ReadSlice d rd = ((t @ [d], None), rd\<lparr>pending := drop (Suc (length t)) (t @ d # rest)\<rparr>)"
    unfolding ReadSlice_def Let_def p tk tw by simp
  then show ?thesis
    by (simp add: rd_def)
qed

lemma ReadSlice_last:
  assumes "d \<notin> set t" "length t < defaultBufSize"
  shows "ReadSlice d \<lparr>pending = t, fail = e\<rparr> = ((t, Some e), \<lparr>pending = [], fail = e\<rparr>)"
  using assms by (simp add: ReadSlice_def Let_def takeWhile_no_delim)

lemma ReadSlice_full:
  assumes "d \<notin> set t" "length t = defaultBufSize"
  shows "ReadSlice d \<lparr>pending = t @ rest, fail = e\<rparr>
         = ((t, Some ErrBufferFull), \<lparr>pending = rest, fail = e\<rparr>)"
  using assms by (simp add: ReadSlice_def Let_def takeWhile_no_delim)

lemma symbol_loop_tokens:
  assumes "toks \<noteq> []" "\<forall>t\<in>set toks. CHR ''+'' \<notin> set t \<and> length t < defaultBufSize"
  shows "symbol_loop f \<lparr>pending = Join toks ''+'', fail = e\<rparr> buf
         = buf @ concat (map (symbol_line f) toks)
             @ (if e \<noteq> EOF then ''reading request: '' @ error_text e @ ''\<newline>'' else [])"
  using assms
proof (induction toks "''+''" arbitrary: buf rule: Join.induct)
  case 1
  then show ?case by simp
next
  case (2 a)
  then have rs: "ReadSlice (CHR ''+'') \<lparr>pending = a, fail = e\<rparr>
      = ((a, Some e), \<lparr>pending = [], fail = e\<rparr>)"
    by (simp add: ReadSlice_last)
  show ?case
    by (subst symbol_loop.simps) (simp add: rs Let_def)
next
  case (3 a b rest)
  then have rs: "ReadSlice (CHR ''+'') \<lparr>pending = a @ CHR ''+'' # Join (b # rest) ''+'', fail = e\<rparr>
      = ((a @ ''+'', None), \<lparr>pending = Join (b # rest) ''+'', fail = e\<rparr>)"
    by (simp add: ReadSlice_delim)
  have "symbol_loop f \<lparr>pending = Join (a # b # rest) ''+'', fail = e\<rparr> buf
      = symbol_loop f \<lparr>pending = Join (b # rest) ''+'', fail = e\<rparr> (buf @ symbol_line f a)"
    by (subst symbol_loop.simps) (simp add: rs Let_def)
  also have "\<dots> = (buf @ symbol_line f a) @ concat (map (symbol_line f) (b # rest))
             @ (if e \<noteq> EOF then ''reading request: '' @ error_text e @ ''\<newline>'' else [])"
    using 3 by (intro "3.hyps") auto
  finally show ?case by simp
qed

lemma symbol_loop_full:
  assumes "CHR ''+'' \<notin> set t" "length t = defaultBufSize"
  shows "symbol_loop f \<lparr>pending = t @ rest, fail = e\<rparr> buf
         = buf @ symbol_line f t @ ''reading request: bufio: buffer full\<newline>''"
  by (subst symbol_loop.simps) (simp add: ReadSlice_full [OF assms] Let_def)

lemma symbol_loop_skip_tokens:
  assumes "\<forall>t\<in>set toks. CHR ''+'' \<notin> set t \<and> length t < defaultBufSize"
  shows "symbol_loop f \<lparr>pending = concat (map (\<lambda>t. t @ ''+'') toks) @ rest, fail = e\<rparr> buf
         = symbol_loop f \<lparr>pending = rest, fail = e\<rparr> (buf @ concat (map (symbol_line f) toks))"
  using assms
proof (induction toks arbitrary: buf)
  case Nil
  then show ?case by simp
next
  case (Cons a toks)
  then have rs: "ReadSlice (CHR ''+'')
        \<lparr>pending = a @ CHR ''+'' # (concat (map (\<lambda>t. t @ ''+'') toks) @ rest), fail = e\<rparr>
      = ((a @ ''+'', None), \<lparr>pending = concat (map (\<lambda>t. t @ ''+'') toks) @ rest, fail = e\<rparr>)"
    by (simp add: ReadSlice_delim)
  have "symbol_loop f \<lparr>pending = concat (map (\<lambda>t. t @ ''+'') (a # toks)) @ rest, fail = e\<rparr> buf
      = symbol_loop f \<lparr>pending = concat (map (\<lambda>t. t @ ''+'') toks) @ rest, fail = e\<rparr>
          (buf @ symbol_line f a)"
    by (subst symbol_loop.simps) (simp add: rs Let_def)
  also have "\<dots> = symbol_loop f \<lparr>pending = rest, fail = e\<rparr>
        ((buf @ symbol_line f a) @ concat (map (symbol_line f) toks))"
    using Cons.prems by (intro Cons.IH) simp
  finally show ?case by simp
qed

lemma reader_eq: "pending rd = p \<Longrightarrow> rd = \<lparr>pending = p, fail = fail rd\<rparr>"
  by (cases rd) simp

lemma writes_Symbol:
  "writes (Symbol f r w) = writes w @
     [symbol_loop f (if Method r = ''POST'' then req_body r else \<lparr>pending = raw_query r, fail = EOF\<rparr>)
        ''num_symbols: 1\<newline>'']"
  unfolding Symbol_def Let_def by (simp only: writes_Write writes_Header_Set)

text \<open>
  C5 (as amended). For a \<open>+\<close>-separated list of tokens, each shorter than the read buffer
  (4096 bytes), given as the query string or as a POST body, the body is the marker line
  followed by what each token adds, in order (and, when the request body breaks off with
  a read error, by the line that reports it, see C7). A token that parses without error
  to a nonzero counter of a known function adds exactly the line
  \<open><hex address> <function name>\<close>; a token whose value is zero, a token that does not
  parse and a counter with no known function add nothing. The symbol table is the
  runtime's: no function owns the address \<open>2^64 - 1\<close>, which is the value \<open>ParseUint\<close>
  returns for a token too large for 64 bits.
\<close>

theorem Symbol_lines_of_short_tokens:
  assumes "toks \<noteq> []"
    and "\<forall>t\<in>set toks. CHR ''+'' \<notin> set t \<and> length t < defaultBufSize"
    and "FuncForPC (- 1) = None"
    and "Method r \<noteq> ''POST'' \<and> raw_query r = Join toks ''+''
         \<or> Method r = ''POST'' \<and> pending (req_body r) = Join toks ''+''"
  shows "body (Symbol FuncForPC r new_response)
           = ''num_symbols: 1\<newline>'' @ concat (map (symbol_line FuncForPC) toks)
               @ (if Method r = ''POST'' \<and> fail (req_body r) \<noteq> EOF
                  then ''reading request: '' @ error_text (fail (req_body r)) @ ''\<newline>''
                  else [])
     \<and> (\<forall>t pc name. ParseUint t 0 64 = (pc, None) \<and> pc \<noteq> 0 \<and> FuncForPC pc = Some name
           \<longrightarrow> symbol_line FuncForPC t = fmt_sharp_x pc @ '' '' @ name @ ''\<newline>'')
     \<and> (\<forall>t. fst (ParseUint t 0 64) = 0 \<or> snd (ParseUint t 0 64) \<noteq> None
             \<or> FuncForPC (fst (ParseUint t 0 64)) = None
           \<longrightarrow> symbol_line FuncForPC t = [])"
proof -
  define e where "e = (if Method r = ''POST'' then fail (req_body r) else EOF)"
  have rd: "(if Method r = ''POST'' then req_body r else \<lparr>pending = raw_query r, fail = EOF\<rparr>)
      = \<lparr>pending = Join toks ''+'', fail = e\<rparr>"
    using assms(4) reader_eq [of "req_body r"] by (auto simp: e_def)
  have el: "(if Method r = ''POST'' \<and> fail (req_body r) \<noteq> EOF
                  then ''reading request: '' @ error_text (fail (req_body r)) @ ''\<newline>''
                  else [])
      = (if e \<noteq> EOF then ''reading request: '' @ error_text e @ ''\<newline>'' else [])"
    by (simp add: e_def)
  have "body (Symbol FuncForPC r new_response)
      = symbol_loop FuncForPC \<lparr>pending = Join toks ''+'', fail = e\<rparr> ''num_symbols: 1\<newline>''"
    unfolding body_def writes_Symbol rd by (simp add: new_response_def)
  then have 1: "body (Symbol FuncForPC r new_response)
           = ''num_symbols: 1\<newline>'' @ concat (map (symbol_line FuncForPC) toks)
               @ (if Method r = ''POST'' \<and> fail (req_body r) \<noteq> EOF
                  then ''reading request: '' @ error_text (fail (req_body r)) @ ''\<newline>''
                  else [])"
    unfolding el
    using symbol_loop_tokens [OF assms(1,2), of FuncForPC e "''num_symbols: 1\<newline>''"]
    by (simp only:)
  have 2: "symbol_line FuncForPC t = fmt_sharp_x pc @ '' '' @ name @ ''\<newline>''"
    if "ParseUint t 0 64 = (pc, None) \<and> pc \<noteq> 0 \<and> FuncForPC pc = Some name" for t pc name
    using that by (simp add: symbol_line_def)
  have 3: "symbol_line FuncForPC t = []"
    if "fst (ParseUint t 0 64) = 0 \<or> snd (ParseUint t 0 64) \<noteq> None
             \<or> FuncForPC (fst (ParseUint t 0 64)) = None" for t
    using that ParseUint_value [of t] assms(3) by (auto simp: symbol_line_def Let_def)
  from 1 2 3 show ?thesis
    by blast
qed

theorem Symbol_lines_of_short_tokens_witness:
  "body (Symbol example_table (get_request ''12345+0+badtoken+67890'' Map.empty) new_response)
     = ''num_symbols: 1\<newline>0x3039 main.main\<newline>''
   \<and> symbol_line example_table ''12345'' = ''0x3039 main.main\<newline>''
   \<and> symbol_line example_table ''0'' = []
   \<and> symbol_line example_table ''badtoken'' = []
   \<and> symbol_line example_table ''67890'' = []
   \<and> symbol_line example_table ''18446744073709551616'' = []"
proof -
  have h1: "[''12345'', ''0'', ''badtoken'', ''67890''] \<noteq> []"
    by simp
  have h2: "\<forall>t\<in>set [''12345'', ''0'', ''badtoken'', ''67890''].
      CHR ''+'' \<notin> set t \<and> length t < defaultBufSize"
    by (simp add: defaultBufSize_def)
  have h3: "example_table (- 1) = None"
    by (simp add: example_table_def)
  have h4: "Method (get_request ''12345+0+badtoken+67890'' Map.empty) \<noteq> ''POST''
       \<and> raw_query (get_request ''12345+0+badtoken+67890'' Map.empty)
           = Join [''12345'', ''0'', ''badtoken'', ''67890''] ''+''
     \<or> Method (get_request ''12345+0+badtoken+67890'' Map.empty) = ''POST''
       \<and> pending (req_body (get_request ''12345+0+badtoken+67890'' Map.empty))
           = Join [''12345'', ''0'', ''badtoken'', ''67890''] ''+''"
    by (simp add: get_request_def)
  have m: "Method (get_request ''12345+0+badtoken+67890'' Map.empty) \<noteq> ''POST''"
    by (simp add: get_request_def)
  have p1: "ParseUint ''12345'' 0 64 = (12345, None)"
    by code_simp
  have p2: "fst (ParseUint ''0'' 0 64) = 0"
    by code_simp
  have p3: "snd (ParseUint ''badtoken'' 0 64) \<noteq> None"
    by code_simp
  have p4: "ParseUint ''67890'' 0 64 = (67890, None)"
    by code_simp
  have p5: "snd (ParseUint ''18446744073709551616'' 0 64) \<noteq> None"
    by code_simp
  note inst = Symbol_lines_of_short_tokens [where FuncForPC = example_table, OF h1 h2 h3 h4]
  have l1: "symbol_line example_table ''12345'' = ''0x3039 main.main\<newline>''"
    using inst [THEN conjunct2, THEN conjunct1, rule_format, of "''12345''" 12345 "''main.main''"] p1
    by (simp add: example_table_def fmt_sharp_x_12345)
  have l2: "symbol_line example_table ''0'' = []"
    using inst [THEN conjunct2, THEN conjunct2, rule_format, of "''0''"] p2
    by (simp only: simp_thms)
  have l3: "symbol_line example_table ''badtoken'' = []"
    using inst [THEN conjunct2, THEN conjunct2, rule_format, of "''badtoken''"] p3
    by (simp only: simp_thms)
  have l4: "symbol_line example_table ''67890'' = []"
    using inst [THEN conjunct2, THEN conjunct2, rule_format, of "''67890''"] p4
    by (simp add: example_table_def)
  have l5: "symbol_line example_table ''18446744073709551616'' = []"
    using inst [THEN conjunct2, THEN conjunct2, rule_format, of "''18446744073709551616''"] p5
    by (simp only: simp_thms)
  have b: "body (Symbol example_table (get_request ''12345+0+badtoken+67890'' Map.empty) new_response)
     = ''num_symbols: 1\<newline>0x3039 main.main\<newline>''"
    using inst [THEN conjunct1] l1 l2 l3 l4 m by simp
  show ?thesis
    by (intro conjI b l1 l2 l3 l4 l5)
qed

lemma ParseUint_starts_with_z: "ParseUint (CHR ''z'' # s) 0 64 = (0, Some ErrSyntax)"
proof -
  have d: "digit_of (CHR ''z'') = Some 35"
    by code_simp
  have bp: "base_prefix (CHR ''z'' # s) = (10, CHR ''z'' # s)"
    by (simp add: base_prefix_def)
  have ul: "uint_loop 10 True c m (CHR ''z'' # s) 0 False = (0, Some ErrSyntax, False)" for c m
    by (simp add: d)
  show ?thesis
    unfolding ParseUint_0_64 bp fst_conv snd_conv ul by simp
qed

lemma ParseUint_long_token: "fst (ParseUint long_token 0 64) = 0"
proof -
  have e: "long_token = CHR ''z'' # replicate 4095 (CHR ''z'')"
    unfolding long_token_def by (simp add: replicate_Suc [symmetric] del: replicate_Suc)
  show ?thesis
    unfolding e ParseUint_starts_with_z by (rule fst_conv)
qed

lemma long_token_facts: "CHR ''+'' \<notin> set long_token" "length long_token = defaultBufSize"
  by (simp_all add: long_token_def defaultBufSize_def)

text \<open>
  C5 as stated fails for a token that fills the 4096-byte read buffer: \<open>ReadSlice\<close>
  returns \<open>ErrBufferFull\<close>, the loop reports the error and stops, and the valid counter
  \<open>12345\<close> after the long token gets no line.
\<close>

theorem Symbol_long_token_counterexample:
  "ParseUint ''12345'' 0 64 = (12345, None)
   \<and> example_table 12345 = Some ''main.main''
   \<and> body (Symbol example_table (get_request (long_token @ ''+12345'') Map.empty) new_response)
       = ''num_symbols: 1\<newline>reading request: bufio: buffer full\<newline>''"
proof -
  have p1: "ParseUint ''12345'' 0 64 = (12345, None)"
    by code_simp
  have p2: "example_table 12345 = Some ''main.main''"
    by (simp add: example_table_def)
  have sl: "symbol_line example_table long_token = []"
    by (simp add: symbol_line_def ParseUint_long_token)
  have rq: "(if Method (get_request (long_token @ ''+12345'') Map.empty) = ''POST''
       then req_body (get_request (long_token @ ''+12345'') Map.empty)
       else \<lparr>pending = raw_query (get_request (long_token @ ''+12345'') Map.empty), fail = EOF\<rparr>)
      = \<lparr>pending = long_token @ ''+12345'', fail = EOF\<rparr>"
    by (simp add: get_request_def)
  have "body (Symbol example_table (get_request (long_token @ ''+12345'') Map.empty) new_response)
      = symbol_loop example_table \<lparr>pending = long_token @ ''+12345'', fail = EOF\<rparr> ''num_symbols: 1\<newline>''"
    unfolding body_def writes_Symbol rq by (simp add: new_response_def)
  then have p3: "body (Symbol example_table (get_request (long_token @ ''+12345'') Map.empty) new_response)
       = ''num_symbols: 1\<newline>reading request: bufio: buffer full\<newline>''"
    unfolding symbol_loop_full [OF long_token_facts] sl by simp
  show ?thesis
    by (intro conjI p1 p2 p3)
qed

lemma symbol_line_12345: "symbol_line example_table ''12345'' = ''0x3039 main.main\<newline>''"
proof -
  have "ParseUint ''12345'' 0 64 = (12345, None)"
    by code_simp
  then show ?thesis
    by (simp add: symbol_line_def example_table_def fmt_sharp_x_12345)
qed

lemma symbol_line_67890: "symbol_line example_table ''67890'' = []"
proof -
  have "ParseUint ''67890'' 0 64 = (67890, None)"
    by code_simp
  then show ?thesis
    by (simp add: symbol_line_def example_table_def)
qed

text \<open>
  C7. Symbol builds its whole response in a buffer and hands it to the client in one
  write made after the input has been read. When the request body breaks off with an
  error other than EOF, the payload holds the marker line, what every token read so far
  adds, and then the line \<open>reading request: <error>\<close>, after which nothing more is read.
  The same holds for the error \<open>ReadSlice\<close> raises itself when a token fills its buffer:
  the lines of the tokens before it are delivered, followed by the error line.
\<close>

theorem Symbol_single_buffered_write:
  "length (writes (Symbol FuncForPC r w)) = Suc (length (writes w))
   \<and> (toks \<noteq> [] \<and> (\<forall>t\<in>set toks. CHR ''+'' \<notin> set t \<and> length t < defaultBufSize)
        \<and> e \<noteq> EOF \<and> Method r = ''POST''
        \<and> req_body r = \<lparr>pending = Join toks ''+'', fail = e\<rparr>
      \<longrightarrow> writes (Symbol FuncForPC r w) = writes w @
            [''num_symbols: 1\<newline>'' @ concat (map (symbol_line FuncForPC) toks)
               @ ''reading request: '' @ error_text e @ ''\<newline>''])
   \<and> ((\<forall>t\<in>set toks. CHR ''+'' \<notin> set t \<and> length t < defaultBufSize)
        \<and> CHR ''+'' \<notin> set long \<and> length long = defaultBufSize
        \<and> (Method r = ''POST''
              \<and> pending (req_body r) = concat (map (\<lambda>t. t @ ''+'') toks) @ long @ rest
            \<or> Method r \<noteq> ''POST''
              \<and> raw_query r = concat (map (\<lambda>t. t @ ''+'') toks) @ long @ rest)
      \<longrightarrow> writes (Symbol FuncForPC r w) = writes w @
            [''num_symbols: 1\<newline>'' @ concat (map (symbol_line FuncForPC) toks)
               @ symbol_line FuncForPC long @ ''reading request: bufio: buffer full\<newline>''])"
proof (intro conjI impI)
  show "length (writes (Symbol FuncForPC r w)) = Suc (length (writes w))"
    by (simp add: writes_Symbol)
next
  assume a: "toks \<noteq> [] \<and> (\<forall>t\<in>set toks. CHR ''+'' \<notin> set t \<and> length t < defaultBufSize)
        \<and> e \<noteq> EOF \<and> Method r = ''POST''
        \<and> req_body r = \<lparr>pending = Join toks ''+'', fail = e\<rparr>"
  then have rd: "(if Method r = ''POST'' then req_body r else \<lparr>pending = raw_query r, fail = EOF\<rparr>)
      = \<lparr>pending = Join toks ''+'', fail = e\<rparr>"
    by simp
  from a have "symbol_loop FuncForPC \<lparr>pending = Join toks ''+'', fail = e\<rparr> ''num_symbols: 1\<newline>''
      = ''num_symbols: 1\<newline>'' @ concat (map (symbol_line FuncForPC) toks)
               @ ''reading request: '' @ error_text e @ ''\<newline>''"
    by (simp add: symbol_loop_tokens)
  then show "writes (Symbol FuncForPC r w) = writes w @
            [''num_symbols: 1\<newline>'' @ concat (map (symbol_line FuncForPC) toks)
               @ ''reading request: '' @ error_text e @ ''\<newline>'']"
    unfolding writes_Symbol rd by simp
next
  assume a: "(\<forall>t\<in>set toks. CHR ''+'' \<notin> set t \<and> length t < defaultBufSize)
        \<and> CHR ''+'' \<notin> set long \<and> length long = defaultBufSize
        \<and> (Method r = ''POST''
              \<and> pending (req_body r) = concat (map (\<lambda>t. t @ ''+'') toks) @ long @ rest
            \<or> Method r \<noteq> ''POST''
              \<and> raw_query r = concat (map (\<lambda>t. t @ ''+'') toks) @ long @ rest)"
  define x where "x = (if Method r = ''POST'' then fail (req_body r) else EOF)"
  have rd: "(if Method r = ''POST'' then req_body r else \<lparr>pending = raw_query r, fail = EOF\<rparr>)
      = \<lparr>pending = concat (map (\<lambda>t. t @ ''+'') toks) @ long @ rest, fail = x\<rparr>"
    using a reader_eq [of "req_body r"] by (auto simp: x_def)
  from a have "symbol_loop FuncForPC
        \<lparr>pending = concat (map (\<lambda>t. t @ ''+'') toks) @ long @ rest, fail = x\<rparr> ''num_symbols: 1\<newline>''
      = ''num_symbols: 1\<newline>'' @ concat (map (symbol_line FuncForPC) toks)
               @ symbol_line FuncForPC long @ ''reading request: bufio: buffer full\<newline>''"
    by (simp add: symbol_loop_skip_tokens symbol_loop_full)
  then show "writes (Symbol FuncForPC r w) = writes w @
            [''num_symbols: 1\<newline>'' @ concat (map (symbol_line FuncForPC) toks)
               @ symbol_line FuncForPC long @ ''reading request: bufio: buffer full\<newline>'']"
    unfolding writes_Symbol rd by simp
qed

theorem Symbol_single_buffered_write_witness:
  "writes (Symbol example_table (post_request ''12345+67890'' (ReadFailed ''unexpected EOF''))
      new_response)
     = [''num_symbols: 1\<newline>0x3039 main.main\<newline>reading request: unexpected EOF\<newline>'']
   \<and> writes (Symbol example_table (post_request (''12345+'' @ long_token @ ''+67890'') EOF)
        new_response)
     = [''num_symbols: 1\<newline>0x3039 main.main\<newline>reading request: bufio: buffer full\<newline>'']"
proof -
  have h1: "[''12345'', ''67890''] \<noteq> []
        \<and> (\<forall>t\<in>set [''12345'', ''67890'']. CHR ''+'' \<notin> set t \<and> length t < defaultBufSize)
        \<and> ReadFailed ''unexpected EOF'' \<noteq> EOF
        \<and> Method (post_request ''12345+67890'' (ReadFailed ''unexpected EOF'')) = ''POST''
        \<and> req_body (post_request ''12345+67890'' (ReadFailed ''unexpected EOF''))
            = \<lparr>pending = Join [''12345'', ''67890''] ''+'', fail = ReadFailed ''unexpected EOF''\<rparr>"
    by (simp add: post_request_def defaultBufSize_def)
  have h2: "(\<forall>t\<in>set [''12345'']. CHR ''+'' \<notin> set t \<and> length t < defaultBufSize)
        \<and> CHR ''+'' \<notin> set long_token \<and> length long_token = defaultBufSize
        \<and> (Method (post_request (''12345+'' @ long_token @ ''+67890'') EOF) = ''POST''
              \<and> pending (req_body (post_request (''12345+'' @ long_token @ ''+67890'') EOF))
                   = concat (map (\<lambda>t. t @ ''+'') [''12345'']) @ long_token @ ''+67890''
            \<or> Method (post_request (''12345+'' @ long_token @ ''+67890'') EOF) \<noteq> ''POST''
              \<and> raw_query (post_request (''12345+'' @ long_token @ ''+67890'') EOF)
                   = concat (map (\<lambda>t. t @ ''+'') [''12345'']) @ long_token @ ''+67890'')"
    using long_token_facts by (simp add: post_request_def defaultBufSize_def)
  have sl: "symbol_line example_table long_token = []"
    by (simp add: symbol_line_def ParseUint_long_token)
  from Symbol_single_buffered_write
         [of example_table "post_request ''12345+67890'' (ReadFailed ''unexpected EOF'')"
            new_response "[''12345'', ''67890'']" "ReadFailed ''unexpected EOF''",
          THEN conjunct2, THEN conjunct1, rule_format, OF h1]
  have w1: "writes (Symbol example_table (post_request ''12345+67890'' (ReadFailed ''unexpected EOF''))
      new_response)
     = [''num_symbols: 1\<newline>0x3039 main.main\<newline>reading request: unexpected EOF\<newline>'']"
    by (simp add: symbol_line_12345 symbol_line_67890 new_response_def)
  from Symbol_single_buffered_write
         [of example_table "post_request (''12345+'' @ long_token @ ''+67890'') EOF"
            new_response "[''12345'']" _ long_token "''+67890''",
          THEN conjunct2, THEN conjunct2, rule_format, OF h2]
  have w2: "writes (Symbol example_table (post_request (''12345+'' @ long_token @ ''+67890'') EOF)
        new_response)
     = [''num_symbols: 1\<newline>0x3039 main.main\<newline>reading request: bufio: buffer full\<newline>'']"
    by (simp add: symbol_line_12345 sl new_response_def)
  show ?thesis
    by (intro conjI w1 w2)
qed

text \<open>
  C10. Every /symbol response begins with the line \<open>num_symbols: 1\<close>, whatever the
  request holds and whatever the symbol table knows: the handler makes one write, and
  its payload starts with that line; on a fresh response writer the body starts with it.
\<close>

theorem Symbol_begins_with_num_symbols:
  "\<exists>rest. writes (Symbol FuncForPC r w) = writes w @ [''num_symbols: 1\<newline>'' @ rest]
     \<and> body (Symbol FuncForPC r new_response) = ''num_symbols: 1\<newline>'' @ rest"
proof -
  define b where "b = (if Method r = ''POST'' then req_body r
               else \<lparr>pending = raw_query r, fail = EOF\<rparr>)"
  obtain rest where rest: "symbol_loop FuncForPC b ''num_symbols: 1\<newline>'' = ''num_symbols: 1\<newline>'' @ rest"
    using symbol_loop_extends [of FuncForPC b "''num_symbols: 1\<newline>''"] by (elim exE)
  have w: "writes (Symbol FuncForPC r w) = writes w @ [symbol_loop FuncForPC b ''num_symbols: 1\<newline>'']" for w
    unfolding Symbol_def Let_def b_def by (simp only: writes_Write writes_Header_Set)
  have "body (Symbol FuncForPC r new_response) = symbol_loop FuncForPC b ''num_symbols: 1\<newline>''"
    unfolding body_def w by (simp add: new_response_def)
  with w rest show ?thesis by (intro exI [of _ rest]) (simp only: simp_thms)
qed

section \<open>Properties of Profile and Trace\<close>

lemma StartCPUProfile_failed: "fst (StartCPUProfile s) = Some e \<Longrightarrow> StartCPUProfile s = (Some e, s)"
  by (auto simp: StartCPUProfile_def split: if_splits)

lemma StartCPUProfile_ok:
  "fst (StartCPUProfile s) = None \<Longrightarrow> StartCPUProfile s = (None, s\<lparr>cpu_profiling := True\<rparr>)"
  by (auto simp: StartCPUProfile_def split: if_splits)

lemma trace_Start_failed: "fst (trace_Start s) = Some e \<Longrightarrow> trace_Start s = (Some e, s)"
  by (auto simp: trace_Start_def split: if_splits)

lemma trace_Start_ok:
  "fst (trace_Start s) = None \<Longrightarrow> trace_Start s = (None, s\<lparr>tracing := True\<rparr>)"
  by (auto simp: trace_Start_def split: if_splits)

lemma Profile_start_failed:
  assumes "fst (StartCPUProfile (sampler st)) = Some e"
  shows "Profile env r cg st =
     st\<lparr>resp := Write (''Could not enable CPU profiling: '' @ e @ ''\<newline>'')
                  (WriteHeader StatusInternalServerError
                    (Header_Set ''Content-Type'' ''text/plain; charset=utf-8'' (resp st))),
        events := events st @ [CallStartCPUProfile]\<rparr>"
  unfolding Profile_def Let_def
  by (simp add: StartCPUProfile_failed [OF assms] on_resp_def emit_def)

lemma Profile_started:
  assumes "fst (StartCPUProfile (sampler st)) = None"
  shows "Profile env r cg st =
     (let d = profile_seconds r * Second;
          wk = sleep cg d;
          st4 = st\<lparr>resp := Header_Set ''Content-Type'' ''text/plain; charset=utf-8'' (resp st),
                   sampler := (sampler st)\<lparr>cpu_profiling := False\<rparr>,
                   events := events st @ [CallStartCPUProfile, CallSleep d wk, CallStopCPUProfile]\<rparr>;
          raw = cpu_data env d wk
      in if fst (ParseBool (FormValue r ''binary''))
         then on_resp (\<lambda>w. Write raw (Header_Set ''Content-Type'' ''application/octet-stream'' w)) st4
         else profile_text env r (fst (ParseBool (FormValue r ''cum''))) raw st4)"
  unfolding Profile_def Let_def
  by (simp add: StartCPUProfile_ok [OF assms] on_resp_def emit_def StopCPUProfile_def)

lemma Trace_start_failed:
  assumes "fst (trace_Start (sampler st)) = Some e"
  shows "Trace env r cg st =
     st\<lparr>resp := Write (''Could not enable tracing: '' @ e @ ''\<newline>'')
                  (WriteHeader StatusInternalServerError
                    (Header_Set ''Content-Type'' ''text/plain; charset=utf-8''
                      (Header_Set ''Content-Type'' ''application/octet-stream'' (resp st)))),
        events := events st @ [CallTraceStart]\<rparr>"
  unfolding Trace_def Let_def
  by (simp add: trace_Start_failed [OF assms] on_resp_def emit_def)

lemma Trace_started:
  assumes "fst (trace_Start (sampler st)) = None"
  shows "Trace env r cg st =
     (let d = Duration_of env (trace_seconds env r);
          wk = sleep cg d
      in st\<lparr>resp := foldl (\<lambda>w c. Write c w)
                       (Header_Set ''Content-Type'' ''application/octet-stream'' (resp st))
                       (trace_data env d wk),
            sampler := (sampler st)\<lparr>tracing := False\<rparr>,
            events := events st @ [CallTraceStart, CallSleep d wk, CallTraceStop]\<rparr>)"
  unfolding Trace_def Let_def
  by (simp add: trace_Start_ok [OF assms] on_resp_def emit_def trace_Stop_def)

lemma status_Write_fresh: "status w = None \<Longrightarrow> status (Write b w) = Some 200"
  by (simp add: Write_def WriteHeader_def Let_def)

lemma status_Write_sent: "status w = Some c \<Longrightarrow> status (Write b w) = Some c"
  by (simp add: Write_def WriteHeader_def Let_def)

lemma status_WriteHeader_fresh: "status w = None \<Longrightarrow> status (WriteHeader c w) = Some c"
  by (simp add: WriteHeader_def)

lemma writes_WriteHeader: "writes (WriteHeader c w) = writes w"
  by (simp add: WriteHeader_def)

lemma status_Header_Set: "status (Header_Set k v w) = status w"
  by (simp add: Header_Set_def)

lemma sent_header_error:
  "status w = None \<Longrightarrow>
   sent_header (Write b (WriteHeader c (Header_Set k v w))) k = Some v"
  by (simp add: Write_def WriteHeader_def Header_Set_def Let_def)

text \<open>
  C3. When starting the capture fails (\<open>StartCPUProfile\<close> in Profile, \<open>trace.Start\<close> in
  Trace), the handler answers with status 500 and the error message and returns: the
  only call it has made is the start, so there is no wait and no stop, and the sampler is
  as it was. Trace also sets the content type back to plain text.
\<close>

theorem start_failure_ends_request:
  "(fst (StartCPUProfile (sampler st)) = Some e \<and> status (resp st) = None \<longrightarrow>
      status (resp (Profile env r clientGone st)) = Some 500
      \<and> writes (resp (Profile env r clientGone st))
          = writes (resp st) @ [''Could not enable CPU profiling: '' @ e @ ''\<newline>'']
      \<and> events (Profile env r clientGone st) = events st @ [CallStartCPUProfile]
      \<and> sampler (Profile env r clientGone st) = sampler st)
   \<and> (fst (trace_Start (sampler st)) = Some e \<and> status (resp st) = None \<longrightarrow>
      status (resp (Trace tenv r clientGone st)) = Some 500
      \<and> sent_header (resp (Trace tenv r clientGone st)) ''Content-Type''
          = Some ''text/plain; charset=utf-8''
      \<and> writes (resp (Trace tenv r clientGone st))
          = writes (resp st) @ [''Could not enable tracing: '' @ e @ ''\<newline>'']
      \<and> events (Trace tenv r clientGone st) = events st @ [CallTraceStart]
      \<and> sampler (Trace tenv r clientGone st) = sampler st)"
proof (intro conjI impI)
  assume a: "fst (StartCPUProfile (sampler st)) = Some e \<and> status (resp st) = None"
  then have P: "Profile env r clientGone st =
     st\<lparr>resp := Write (''Could not enable CPU profiling: '' @ e @ ''\<newline>'')
                  (WriteHeader StatusInternalServerError
                    (Header_Set ''Content-Type'' ''text/plain; charset=utf-8'' (resp st))),
        events := events st @ [CallStartCPUProfile]\<rparr>"
    by (simp add: Profile_start_failed)
  show "status (resp (Profile env r clientGone st)) = Some 500"
    using a unfolding P
    by (simp add: status_Write_sent status_WriteHeader_fresh status_Header_Set
        StatusInternalServerError_def)
  show "writes (resp (Profile env r clientGone st))
          = writes (resp st) @ [''Could not enable CPU profiling: '' @ e @ ''\<newline>'']"
    unfolding P by (simp add: writes_Write writes_WriteHeader writes_Header_Set)
  show "events (Profile env r clientGone st) = events st @ [CallStartCPUProfile]"
    unfolding P by simp
  show "sampler (Profile env r clientGone st) = sampler st"
    unfolding P by simp
next
  assume a: "fst (trace_Start (sampler st)) = Some e \<and> status (resp st) = None"
  then have T: "Trace tenv r clientGone st =
     st\<lparr>resp := Write (''Could not enable tracing: '' @ e @ ''\<newline>'')
                  (WriteHeader StatusInternalServerError
                    (Header_Set ''Content-Type'' ''text/plain; charset=utf-8''
                      (Header_Set ''Content-Type'' ''application/octet-stream'' (resp st)))),
        events := events st @ [CallTraceStart]\<rparr>"
    by (simp add: Trace_start_failed)
  show "status (resp (Trace tenv r clientGone st)) = Some 500"
    using a unfolding T
    by (simp add: status_Write_sent status_WriteHeader_fresh status_Header_Set
        StatusInternalServerError_def)
  show "sent_header (resp (Trace tenv r clientGone st)) ''Content-Type''
          = Some ''text/plain; charset=utf-8''"
    using a unfolding T by (simp add: sent_header_error status_Header_Set)
  show "writes (resp (Trace tenv r clientGone st))
          = writes (resp st) @ [''Could not enable tracing: '' @ e @ ''\<newline>'']"
    unfolding T by (simp add: writes_Write writes_WriteHeader writes_Header_Set)
  show "events (Trace tenv r clientGone st) = events st @ [CallTraceStart]"
    unfolding T by simp
  show "sampler (Trace tenv r clientGone st) = sampler st"
    unfolding T by simp
qed

theorem start_failure_ends_request_witness:
  "status (resp (Profile failing_symbolizer (get_request [] Map.empty) None busy_state)) = Some 500
   \<and> writes (resp (Profile failing_symbolizer (get_request [] Map.empty) None busy_state))
       = [''Could not enable CPU profiling: cpu profiling already in use\<newline>'']
   \<and> events (Profile failing_symbolizer (get_request [] Map.empty) None busy_state)
       = [CallStartCPUProfile]
   \<and> sampler (Profile failing_symbolizer (get_request [] Map.empty) None busy_state)
       = sampler busy_state
   \<and> status (resp (Trace example_tracer (get_request [] Map.empty) None busy_state)) = Some 500
   \<and> writes (resp (Trace example_tracer (get_request [] Map.empty) None busy_state))
       = [''Could not enable tracing: tracing is already enabled\<newline>'']
   \<and> events (Trace example_tracer (get_request [] Map.empty) None busy_state) = [CallTraceStart]
   \<and> sampler (Trace example_tracer (get_request [] Map.empty) None busy_state)
       = sampler busy_state"
proof -
  have h1: "fst (StartCPUProfile (sampler busy_state)) = Some ''cpu profiling already in use''
      \<and> status (resp busy_state) = None"
    by (simp add: busy_state_def StartCPUProfile_def new_response_def)
  have h2: "fst (trace_Start (sampler busy_state)) = Some ''tracing is already enabled''
      \<and> status (resp busy_state) = None"
    by (simp add: busy_state_def trace_Start_def new_response_def)
  have w: "writes (resp busy_state) = []" "events busy_state = []"
    by (simp_all add: busy_state_def new_response_def)
  from start_failure_ends_request
         [of busy_state "''cpu profiling already in use''" failing_symbolizer
            "get_request [] Map.empty" None,
          THEN conjunct1, rule_format, OF h1]
       start_failure_ends_request
         [where st = busy_state and e = "''tracing is already enabled''"
            and tenv = example_tracer and r = "get_request [] Map.empty"
            and clientGone = None,
          THEN conjunct2, rule_format, OF h2]
  show ?thesis
    by (simp add: w)
qed

lemma events_on_resp: "events (on_resp f st) = events st"
  by (simp add: on_resp_def)

lemma sampler_on_resp: "sampler (on_resp f st) = sampler st"
  by (simp add: on_resp_def)

lemma resp_on_resp: "resp (on_resp f st) = f (resp st)"
  by (simp add: on_resp_def)

lemma events_profile_text:
  "\<exists>rest. events (profile_text env r cum raw st) = events st @ rest
     \<and> set rest \<subseteq> {CallParse, CallSymbolize (''http://'' @ host r @ ''/symbol''), CallGenerate}"
  by (auto simp: profile_text_def Let_def emit_def on_resp_def split: sum.splits prod.splits option.splits)

lemma sampler_profile_text: "sampler (profile_text env r cum raw st) = sampler st"
  by (auto simp: profile_text_def Let_def emit_def on_resp_def split: sum.splits prod.splits option.splits)

text \<open>
  C4. When the start succeeds, the handler's calls are the start, the wait and then the
  stop, in this order, whether the wait ended with the timer or with the client going
  away (\<open>clientGone\<close> is arbitrary); nothing the handler does afterwards starts or stops
  the capture again, and the capture is off when the handler returns.
\<close>

theorem stop_called_once_after_wait:
  "(fst (StartCPUProfile (sampler st)) = None \<longrightarrow>
      (\<exists>rest. events (Profile env r clientGone st)
          = events st @ [CallStartCPUProfile,
                         CallSleep (profile_seconds r * Second)
                           (sleep clientGone (profile_seconds r * Second)),
                         CallStopCPUProfile] @ rest
        \<and> CallStopCPUProfile \<notin> set rest \<and> CallStartCPUProfile \<notin> set rest)
      \<and> \<not> cpu_profiling (sampler (Profile env r clientGone st)))
   \<and> (fst (trace_Start (sampler st)) = None \<longrightarrow>
      events (Trace tenv r clientGone st)
          = events st @ [CallTraceStart,
                         CallSleep (Duration_of tenv (trace_seconds tenv r))
                           (sleep clientGone (Duration_of tenv (trace_seconds tenv r))),
                         CallTraceStop]
      \<and> \<not> tracing (sampler (Trace tenv r clientGone st)))"
proof (intro conjI impI)
  assume a: "fst (StartCPUProfile (sampler st)) = None"
  define d where "d = profile_seconds r * Second"
  define st4 where "st4 =
     st\<lparr>resp := Header_Set ''Content-Type'' ''text/plain; charset=utf-8'' (resp st),
        sampler := (sampler st)\<lparr>cpu_profiling := False\<rparr>,
        events := events st @ [CallStartCPUProfile, CallSleep d (sleep clientGone d), CallStopCPUProfile]\<rparr>"
  have P: "Profile env r clientGone st =
      (if fst (ParseBool (FormValue r ''binary''))
       then on_resp (\<lambda>w. Write (cpu_data env d (sleep clientGone d))
                            (Header_Set ''Content-Type'' ''application/octet-stream'' w)) st4
       else profile_text env r (fst (ParseBool (FormValue r ''cum'')))
              (cpu_data env d (sleep clientGone d)) st4)"
    unfolding Profile_started [OF a] Let_def st4_def d_def by simp
  obtain rest where rest: "events (profile_text env r (fst (ParseBool (FormValue r ''cum'')))
              (cpu_data env d (sleep clientGone d)) st4) = events st4 @ rest"
      "set rest \<subseteq> {CallParse, CallSymbolize (''http://'' @ host r @ ''/symbol''), CallGenerate}"
    using events_profile_text by blast
  have e4: "events st4 = events st @ [CallStartCPUProfile, CallSleep d (sleep clientGone d), CallStopCPUProfile]"
    by (simp add: st4_def)
  show "\<exists>rest. events (Profile env r clientGone st)
          = events st @ [CallStartCPUProfile,
                         CallSleep (profile_seconds r * Second)
                           (sleep clientGone (profile_seconds r * Second)),
                         CallStopCPUProfile] @ rest
        \<and> CallStopCPUProfile \<notin> set rest \<and> CallStartCPUProfile \<notin> set rest"
  proof (cases "fst (ParseBool (FormValue r ''binary''))")
    case True
    then have "events (Profile env r clientGone st) = events st4 @ []"
      unfolding P by (simp add: events_on_resp)
    then show ?thesis
      unfolding e4 d_def by (intro exI [of _ "[]"]) simp
  next
    case False
    then have "events (Profile env r clientGone st) = events st4 @ rest"
      unfolding P using rest(1) by simp
    moreover have "CallStopCPUProfile \<notin> set rest \<and> CallStartCPUProfile \<notin> set rest"
      using rest(2) by auto
    ultimately show ?thesis
      unfolding e4 d_def by (intro exI [of _ rest]) simp
  qed
  show "\<not> cpu_profiling (sampler (Profile env r clientGone st))"
    unfolding P by (simp add: sampler_on_resp sampler_profile_text st4_def)
next
  assume a: "fst (trace_Start (sampler st)) = None"
  show "events (Trace tenv r clientGone st)
          = events st @ [CallTraceStart,
                         CallSleep (Duration_of tenv (trace_seconds tenv r))
                           (sleep clientGone (Duration_of tenv (trace_seconds tenv r))),
                         CallTraceStop]"
    unfolding Trace_started [OF a] Let_def by simp
  show "\<not> tracing (sampler (Trace tenv r clientGone st))"
    unfolding Trace_started [OF a] Let_def by simp
qed

lemma profile_seconds_missing: "profile_seconds (get_request q Map.empty) = 30"
  by (simp add: profile_seconds_def FormValue_def get_request_def ParseInt_def)

lemma ParseBool_missing: "fst (ParseBool (FormValue (get_request q Map.empty) k)) = False"
  by (simp add: FormValue_def get_request_def ParseBool_def)

lemma thirty_seconds: "30 * Second = 30000000000"
  by (simp add: Second_def)

lemma trace_seconds_example: "trace_seconds example_tracer r = Finite 1"
  by (simp add: trace_seconds_def example_tracer_def)

lemma idle_state_starts:
  "fst (StartCPUProfile (sampler idle_state)) = None"
  "fst (trace_Start (sampler idle_state)) = None"
  "status (resp idle_state) = None"
  "writes (resp idle_state) = []"
  "events idle_state = []"
  by (simp_all add: idle_state_def StartCPUProfile_def trace_Start_def new_response_def)

theorem stop_called_once_after_wait_witness:
  "(\<exists>rest. events (Profile failing_symbolizer (get_request [] Map.empty) (Some True) idle_state)
        = [CallStartCPUProfile, CallSleep 30000000000 ClientGone, CallStopCPUProfile] @ rest
      \<and> CallStopCPUProfile \<notin> set rest \<and> CallStartCPUProfile \<notin> set rest)
   \<and> \<not> cpu_profiling (sampler (Profile failing_symbolizer (get_request [] Map.empty) (Some True)
          idle_state))
   \<and> events (Trace example_tracer (get_request [] Map.empty) None idle_state)
        = [CallTraceStart, CallSleep 1000000000 TimerFired, CallTraceStop]
   \<and> \<not> tracing (sampler (Trace example_tracer (get_request [] Map.empty) None idle_state))"
proof -
  have d: "Duration_of example_tracer (Finite 1) = 1000000000"
    by (simp add: example_tracer_def Second_def)
  from stop_called_once_after_wait
         [where st = idle_state and env = failing_symbolizer
            and r = "get_request [] Map.empty" and clientGone = "Some True",
          THEN conjunct1, rule_format, OF idle_state_starts(1)]
  have p: "(\<exists>rest. events (Profile failing_symbolizer (get_request [] Map.empty) (Some True) idle_state)
        = [CallStartCPUProfile, CallSleep 30000000000 ClientGone, CallStopCPUProfile] @ rest
      \<and> CallStopCPUProfile \<notin> set rest \<and> CallStartCPUProfile \<notin> set rest)
   \<and> \<not> cpu_profiling (sampler (Profile failing_symbolizer (get_request [] Map.empty) (Some True)
          idle_state))"
    by (simp add: idle_state_starts profile_seconds_missing thirty_seconds sleep_def)
  from stop_called_once_after_wait
         [where st = idle_state and tenv = example_tracer
            and r = "get_request [] Map.empty" and clientGone = None,
          THEN conjunct2, rule_format, OF idle_state_starts(2)]
  have t: "events (Trace example_tracer (get_request [] Map.empty) None idle_state)
        = [CallTraceStart, CallSleep 1000000000 TimerFired, CallTraceStop]
   \<and> \<not> tracing (sampler (Trace example_tracer (get_request [] Map.empty) None idle_state))"
    by (simp add: idle_state_starts trace_seconds_example d sleep_def)
  from p t show ?thesis
    by (simp only: simp_thms)
qed

lemma profile_text_parse_failed:
  assumes "Parse env raw = Inl e"
  shows "profile_text env r cum raw st =
     st\<lparr>resp := Write (''Failed to parse profile: '' @ e @ ''\<newline>'')
                  (WriteHeader StatusInternalServerError (resp st)),
        events := events st @ [CallParse]\<rparr>"
  by (simp add: profile_text_def assms on_resp_def emit_def)

lemma profile_text_symbolize_failed:
  assumes "Parse env raw = Inr prof"
    and "Symbolize env (''http://'' @ host r @ ''/symbol'') prof = (Some e, prof1)"
  shows "profile_text env r cum raw st =
     st\<lparr>resp := Write (Generate env prof1
                         \<lparr>OutputFormat = Text, CumSort = cum, PrintAddresses = True\<rparr>)
                  (Write (''Failed to symbolize profile: '' @ e @ ''\<newline>'')
                     (WriteHeader StatusInternalServerError (resp st))),
        events := events st @ [CallParse, CallSymbolize (''http://'' @ host r @ ''/symbol''),
                               CallGenerate]\<rparr>"
  using assms by (simp add: profile_text_def on_resp_def emit_def Let_def)

lemma Profile_text_branch:
  assumes "fst (StartCPUProfile (sampler st)) = None"
    and "\<not> fst (ParseBool (FormValue r ''binary''))"
  shows "Profile env r clientGone st =
     profile_text env r (fst (ParseBool (FormValue r ''cum'')))
       (cpu_data env (profile_seconds r * Second) (sleep clientGone (profile_seconds r * Second)))
       (st\<lparr>resp := Header_Set ''Content-Type'' ''text/plain; charset=utf-8'' (resp st),
           sampler := (sampler st)\<lparr>cpu_profiling := False\<rparr>,
           events := events st @ [CallStartCPUProfile,
                                  CallSleep (profile_seconds r * Second)
                                    (sleep clientGone (profile_seconds r * Second)),
                                  CallStopCPUProfile]\<rparr>)"
  unfolding Profile_started [OF assms(1)] Let_def using assms(2) by simp

text \<open>
  C6. In a Profile request for a text report, when parsing the captured bytes fails the
  handler answers with status 500 and the message \<open>Failed to parse profile: <error>\<close>,
  and returns: that message is the only write, and after the parse there is no call to
  the symbolizer or to the report generator.
\<close>

theorem parse_failure_ends_request:
  assumes "fst (StartCPUProfile (sampler st)) = None"
    and "status (resp st) = None"
    and "\<not> fst (ParseBool (FormValue r ''binary''))"
    and "Parse env (cpu_data env (profile_seconds r * Second)
                      (sleep clientGone (profile_seconds r * Second))) = Inl e"
  shows "status (resp (Profile env r clientGone st)) = Some 500
     \<and> writes (resp (Profile env r clientGone st))
         = writes (resp st) @ [''Failed to parse profile: '' @ e @ ''\<newline>'']
     \<and> events (Profile env r clientGone st)
         = events st @ [CallStartCPUProfile,
                        CallSleep (profile_seconds r * Second)
                          (sleep clientGone (profile_seconds r * Second)),
                        CallStopCPUProfile, CallParse]"
  unfolding Profile_text_branch [OF assms(1,3)] profile_text_parse_failed [OF assms(4)]
  using assms(2)
  by (simp add: status_Write_sent status_WriteHeader_fresh status_Header_Set writes_Write
      writes_WriteHeader writes_Header_Set StatusInternalServerError_def)

theorem parse_failure_ends_request_witness:
  "status (resp (Profile failing_parser (get_request [] Map.empty) None idle_state)) = Some 500
   \<and> writes (resp (Profile failing_parser (get_request [] Map.empty) None idle_state))
       = [''Failed to parse profile: unexpected EOF\<newline>'']
   \<and> events (Profile failing_parser (get_request [] Map.empty) None idle_state)
       = [CallStartCPUProfile, CallSleep 30000000000 TimerFired, CallStopCPUProfile, CallParse]"
proof -
  have h3: "\<not> fst (ParseBool (FormValue (get_request [] Map.empty) ''binary''))"
    by (simp add: ParseBool_missing)
  have h4: "Parse failing_parser
      (cpu_data failing_parser (profile_seconds (get_request [] Map.empty) * Second)
         (sleep None (profile_seconds (get_request [] Map.empty) * Second)))
      = Inl ''unexpected EOF''"
    by (simp add: failing_parser_def)
  from parse_failure_ends_request [OF idle_state_starts(1) idle_state_starts(3) h3 h4]
  show ?thesis
    by (simp add: idle_state_starts profile_seconds_missing thirty_seconds sleep_def)
qed

text \<open>
  C1 (as amended). In a Profile request for a text report, a symbolization failure does
  not end the request, but it does set the status: the handler writes status 500 and the
  line \<open>Failed to symbolize profile: <error>\<close>, then generates the report from the
  profile as the symbolizer left it and writes it after that line.
\<close>

theorem symbolize_failure_status_500:
  assumes "fst (StartCPUProfile (sampler st)) = None"
    and "status (resp st) = None"
    and "\<not> fst (ParseBool (FormValue r ''binary''))"
    and "Parse env (cpu_data env (profile_seconds r * Second)
                      (sleep clientGone (profile_seconds r * Second))) = Inr prof"
    and "Symbolize env (''http://'' @ host r @ ''/symbol'') prof = (Some e, prof1)"
  shows "status (resp (Profile env r clientGone st)) = Some 500
     \<and> sent_header (resp (Profile env r clientGone st)) ''Content-Type''
         = Some ''text/plain; charset=utf-8''
     \<and> writes (resp (Profile env r clientGone st))
         = writes (resp st) @
             [''Failed to symbolize profile: '' @ e @ ''\<newline>'',
              Generate env prof1
                \<lparr>OutputFormat = Text, CumSort = fst (ParseBool (FormValue r ''cum'')),
                 PrintAddresses = True\<rparr>]
     \<and> events (Profile env r clientGone st)
         = events st @ [CallStartCPUProfile,
                        CallSleep (profile_seconds r * Second)
                          (sleep clientGone (profile_seconds r * Second)),
                        CallStopCPUProfile, CallParse,
                        CallSymbolize (''http://'' @ host r @ ''/symbol''), CallGenerate]"
  unfolding Profile_text_branch [OF assms(1,3)] profile_text_symbolize_failed [OF assms(4,5)]
  using assms(2)
  by (simp add: Write_def WriteHeader_def Header_Set_def Let_def StatusInternalServerError_def)

theorem symbolize_failure_status_500_witness:
  "status (resp (Profile failing_symbolizer (get_request [] Map.empty) None idle_state)) = Some 500
   \<and> writes (resp (Profile failing_symbolizer (get_request [] Map.empty) None idle_state))
       = [''Failed to symbolize profile: connection refused\<newline>'', ''report'']"
proof -
  have h3: "\<not> fst (ParseBool (FormValue (get_request [] Map.empty) ''binary''))"
    by (simp add: ParseBool_missing)
  have h4: "Parse failing_symbolizer
      (cpu_data failing_symbolizer (profile_seconds (get_request [] Map.empty) * Second)
         (sleep None (profile_seconds (get_request [] Map.empty) * Second)))
      = Inr ()"
    by (simp add: failing_symbolizer_def)
  have h5: "Symbolize failing_symbolizer (''http://'' @ host (get_request [] Map.empty) @ ''/symbol'') ()
      = (Some ''connection refused'', ())"
    by (simp add: failing_symbolizer_def)
  from symbolize_failure_status_500 [OF idle_state_starts(1) idle_state_starts(3) h3 h4 h5]
  show ?thesis
    by (simp add: idle_state_starts failing_symbolizer_def)
qed

text \<open>
  C1 as stated fails: with a symbolizer that returns an error, the response to a text
  profile request has status 500, not 200.
\<close>

theorem symbolize_failure_counterexample:
  "fst (Symbolize failing_symbolizer ''http://localhost:6060/symbol'' ()) = Some ''connection refused''
   \<and> fst (ParseBool (FormValue (get_request [] Map.empty) ''binary'')) = False
   \<and> status (resp (Profile failing_symbolizer (get_request [] Map.empty) None idle_state))
       = Some 500"
proof -
  have P: "Profile failing_symbolizer (get_request [] Map.empty) None idle_state
      = profile_text failing_symbolizer (get_request [] Map.empty) False ''raw''
          (idle_state\<lparr>resp := Header_Set ''Content-Type'' ''text/plain; charset=utf-8'' (resp idle_state),
           sampler := (sampler idle_state)\<lparr>cpu_profiling := False\<rparr>,
           events := events idle_state @ [CallStartCPUProfile,
                                  CallSleep 30000000000 TimerFired,
                                  CallStopCPUProfile]\<rparr>)"
    by (simp add: Profile_text_branch idle_state_starts ParseBool_missing profile_seconds_missing
        thirty_seconds sleep_def failing_symbolizer_def)
  have "status (resp (Profile failing_symbolizer (get_request [] Map.empty) None idle_state))
       = Some 500"
    unfolding P
    by (simp add: profile_text_def failing_symbolizer_def on_resp_def emit_def Let_def
        Write_def WriteHeader_def Header_Set_def StatusInternalServerError_def idle_state_starts)
  then show ?thesis
    by (simp add: failing_symbolizer_def ParseBool_missing)
qed

section \<open>Properties of Cmdline and of the seconds parameter\<close>

lemma doPrintf_plain: "CHR ''%'' \<notin> set s \<Longrightarrow> doPrintf False s = Some s"
  by (induction s) auto

lemma Cmdline_without_percent:
  "CHR ''%'' \<notin> set (Join args [CHR 0x00]) \<Longrightarrow>
   map_option body (Cmdline args new_response) = Some (Join args [CHR 0x00])"
  by (simp add: Cmdline_def doPrintf_plain Let_def body_def writes_Write writes_Header_Set
      new_response_def)

text \<open>
  C8. The body of /cmdline is meant to be the arguments joined by NUL bytes. Cmdline
  passes the joined arguments to \<open>Fprintf\<close> as the format string, so an argument that
  holds a percent sign is rewritten: for the arguments \<open>prog\<close> and \<open>-rate=5%d\<close> the body
  is not the joined string, the verb \<open>%d\<close> having become \<open>%!d(MISSING)\<close>. Without a
  percent sign the body is the joined string (lemma \<open>Cmdline_without_percent\<close>).
\<close>

theorem Cmdline_formats_its_arguments:
  "Join [''prog'', ''-rate=5%d''] [CHR 0x00] = ''prog'' @ [CHR 0x00] @ ''-rate=5%d''
   \<and> map_option body (Cmdline [''prog'', ''-rate=5%d''] new_response)
       = Some (''prog'' @ [CHR 0x00] @ ''-rate=5%!d(MISSING)'')"
  by (simp add: Cmdline_def Let_def body_def writes_Write writes_Header_Set new_response_def
      is_flag_def is_digit_def byte_def)

text \<open>
  C2. The seconds parameter of /profile is meant to fall back to 30 when it is missing,
  zero, negative or invalid. Profile replaces only the value zero: for \<open>seconds=-5\<close> it
  keeps \<open>-5\<close> and waits for \<open>-5000000000\<close> nanoseconds, that is, not at all. Trace
  replaces every non-positive or unparsable value by one second (lemma
  \<open>trace_seconds_default\<close> below), and a value of /profile with a syntax error does
  become 30 (lemma \<open>profile_seconds_syntax_error\<close>).
\<close>

theorem Profile_keeps_negative_seconds:
  "profile_seconds (get_request ''seconds=-5'' [''seconds'' \<mapsto> ''-5'']) = - 5
   \<and> profile_seconds (get_request ''seconds=-5'' [''seconds'' \<mapsto> ''-5'']) \<noteq> 30
   \<and> events (Profile failing_symbolizer (get_request ''seconds=-5'' [''seconds'' \<mapsto> ''-5''])
         None idle_state)
       = [CallStartCPUProfile, CallSleep (- 5000000000) TimerFired, CallStopCPUProfile,
          CallParse, CallSymbolize ''http://localhost:6060/symbol'', CallGenerate]
   \<and> sint (- 5000000000 :: int64) = - 5000000000"
proof -
  have pi: "ParseInt ''-5'' 10 64 = (- 5, None)"
    by code_simp
  have s: "profile_seconds (get_request ''seconds=-5'' [''seconds'' \<mapsto> ''-5'']) = - 5"
    by (simp add: profile_seconds_def FormValue_def get_request_def pi)
  have d: "(- 5 :: int64) * Second = - 5000000000"
    by (simp add: Second_def)
  have b: "\<not> fst (ParseBool (FormValue (get_request ''seconds=-5'' [''seconds'' \<mapsto> ''-5'']) ''binary''))"
    by (simp add: FormValue_def get_request_def ParseBool_def)
  have e: "events (Profile failing_symbolizer (get_request ''seconds=-5'' [''seconds'' \<mapsto> ''-5''])
         None idle_state)
       = [CallStartCPUProfile, CallSleep (- 5000000000) TimerFired, CallStopCPUProfile,
          CallParse, CallSymbolize ''http://localhost:6060/symbol'', CallGenerate]"
    unfolding Profile_text_branch [OF idle_state_starts(1) b] s d
    by (simp add: profile_text_def failing_symbolizer_def emit_def on_resp_def sleep_def
        idle_state_starts get_request_def)
  have n: "sint (- 5000000000 :: int64) = - 5000000000"
    by simp
  have "(- 5 :: int64) \<noteq> 30"
    by simp
  with s e n show ?thesis
    by (simp only: simp_thms)
qed

lemma trace_seconds_default:
  "f64_le_zero (fst (ParseFloat env (FormValue r ''seconds'')))
     \<or> snd (ParseFloat env (FormValue r ''seconds'')) \<noteq> None
   \<Longrightarrow> trace_seconds env r = Finite 1"
  by (auto simp: trace_seconds_def split: prod.splits)

lemma profile_seconds_syntax_error:
  "snd (ParseInt (FormValue r ''seconds'') 10 64) \<notin> {None, Some ErrRange}
   \<Longrightarrow> profile_seconds r = 30"
  by (auto simp: profile_seconds_def ParseInt_def Let_def split: list.splits prod.splits if_splits)

section \<open>Two Profile requests\<close>



end
